theory Spec2Isabelle
  imports Complex_Main
begin

section \<open>Python values, exceptions and effects\<close>

text \<open>
  The pipeline of \<^verbatim>\<open>app.py\<close> is two functions, \<^verbatim>\<open>load_models\<close> and
  \<^verbatim>\<open>predict_shoe_size\<close>, and the button handler of \<^verbatim>\<open>main\<close> that calls them.
  Both wrap their body in \<^verbatim>\<open>try\<close>/\<^verbatim>\<open>except\<close>, so the class of a raised exception
  decides which handler runs. Python's hierarchy is
  \<^verbatim>\<open>ValueError < Exception < BaseException\<close>; Streamlit's \<^verbatim>\<open>st.stop()\<close> raises
  \<^verbatim>\<open>StopException\<close>, which derives from \<^verbatim>\<open>BaseException\<close> and not from
  \<^verbatim>\<open>Exception\<close>.
\<close>

datatype exn =
    ValueError string      \<comment> \<open>\<^verbatim>\<open>ValueError\<close> or a subclass of it; the string is \<^verbatim>\<open>str(e)\<close>\<close>
  | Exception string       \<comment> \<open>any other subclass of \<^verbatim>\<open>Exception\<close> (IndexError, TypeError, OSError, ...)\<close>
  | StopException          \<comment> \<open>raised by \<^verbatim>\<open>st.stop()\<close>\<close>
  | BaseException string   \<comment> \<open>any other exception outside \<^verbatim>\<open>Exception\<close> (KeyboardInterrupt, SystemExit)\<close>

fun str :: "exn \<Rightarrow> string" where
  "str (ValueError m) = m"
| "str (Exception m) = m"
| "str StopException = []"
| "str (BaseException m) = m"

text \<open>\<^verbatim>\<open>except ValueError\<close> and \<^verbatim>\<open>except Exception\<close> as tests on the raised exception.\<close>

fun isinstance_ValueError :: "exn \<Rightarrow> bool" where
  "isinstance_ValueError (ValueError m) = True"
| "isinstance_ValueError e = False"

fun isinstance_Exception :: "exn \<Rightarrow> bool" where
  "isinstance_Exception (ValueError m) = True"
| "isinstance_Exception (Exception m) = True"
| "isinstance_Exception e = False"

text \<open>
  What a call does besides returning: the messages it shows with \<^verbatim>\<open>st.error\<close>, the files
  it opens and unpickles, the calls it makes to the encoder and to the model (with the
  argument handed over), the call of \<^verbatim>\<open>predict_shoe_size\<close> made by \<^verbatim>\<open>main\<close>, and the
  result block \<^verbatim>\<open>main\<close> renders. The events of a call are listed in program order.
\<close>

datatype 'v event =
    StError string
  | Open string
  | PickleLoad string
  | CallTransform "string list"
  | CallPredict "int list list"
  | CallPredictShoeSize int int string
  | ShowPrediction 'v int int string

text \<open>
  An unpickled object, seen through the three attributes the program uses. A method call may
  read and change hidden state of the process (type \<open>'s\<close>), returns an array (a list) or
  raises. \<open>'v\<close> is the type of the values the model returns. \<^verbatim>\<open>classes_\<close> is an attribute
  read, which raises when the object has no such attribute.
\<close>

record ('s, 'v) py_object =
  transform :: "string list \<Rightarrow> 's \<Rightarrow> (exn + int list) \<times> 's"
  predict :: "int list list \<Rightarrow> 's \<Rightarrow> (exn + 'v list) \<times> 's"
  classes :: "exn + string list"

text \<open>\<^verbatim>\<open>a[0]\<close> on a one-dimensional array: the first element, IndexError when it is empty.\<close>

definition getitem0 :: "'a list \<Rightarrow> exn + 'a" where
  "getitem0 a = (case a of [] \<Rightarrow> Inl (Exception ''index 0 is out of bounds for axis 0 with size 0'')
                 | x # _ \<Rightarrow> Inr x)"

subsection \<open>The message texts\<close>

text \<open>The cross mark U+274C that starts most messages, as its three UTF-8 bytes.\<close>

definition cross_mark :: string where
  "cross_mark = [CHR 0xE2, CHR 0x9D, CHR 0x8C]"

definition invalid_gender_message :: "string \<Rightarrow> string" where
  "invalid_gender_message gender =
     cross_mark @ '' Invalid gender value: '' @ gender @ ''. Please select from available options.''"

definition prediction_error_message :: "exn \<Rightarrow> string" where
  "prediction_error_message e = cross_mark @ '' Prediction error: '' @ str e"

section \<open>predict_shoe_size\<close>

text \<open>
  The body of the \<^verbatim>\<open>try\<close> block (lines 161 to 171): encode the gender, take element 0, build
  the one-row input \<^verbatim>\<open>[[age, height, gender_encoded]]\<close>, call the model, take element 0,
  round to 2 digits. \<open>round_builtin\<close> is Python's \<^verbatim>\<open>round\<close> on the values the model
  returns; it raises TypeError on a value that cannot be rounded. The result is the value
  returned or the exception raised, the state after the calls, and the events so far.
\<close>

definition predict_shoe_size_try ::
  "('v \<Rightarrow> int \<Rightarrow> exn + 'v) \<Rightarrow> int \<Rightarrow> int \<Rightarrow> string \<Rightarrow> ('s, 'v) py_object \<Rightarrow> ('s, 'v) py_object
     \<Rightarrow> 's \<Rightarrow> (exn + 'v) \<times> 's \<times> 'v event list" where
  "predict_shoe_size_try round_builtin age height gender model label_encoder s =
     (case transform label_encoder [gender] s of
        (Inl e, s1) \<Rightarrow> (Inl e, s1, [CallTransform [gender]])
      | (Inr codes, s1) \<Rightarrow>
          (case getitem0 codes of
             Inl e \<Rightarrow> (Inl e, s1, [CallTransform [gender]])
           | Inr gender_encoded \<Rightarrow>
               (let input_data = [[age, height, gender_encoded]];
                    evs = [CallTransform [gender], CallPredict input_data]
                in case predict model input_data s1 of
                     (Inl e, s2) \<Rightarrow> (Inl e, s2, evs)
                   | (Inr ys, s2) \<Rightarrow>
                       (case getitem0 ys of
                          Inl e \<Rightarrow> (Inl e, s2, evs)
                        | Inr prediction \<Rightarrow>
                            (case round_builtin prediction 2 of
                               Inl e \<Rightarrow> (Inl e, s2, evs)
                             | Inr r \<Rightarrow> (Inr r, s2, evs))))))"

text \<open>
  The whole function (lines 158 to 178). \<open>Inr (Some r)\<close> is a returned number, \<open>Inr None\<close>
  is Python's \<^verbatim>\<open>None\<close>, \<open>Inl e\<close> is an exception that leaves the function. The first handler
  takes every ValueError of the body, the second every other \<^verbatim>\<open>Exception\<close>; an exception
  outside \<^verbatim>\<open>Exception\<close> matches neither handler.
\<close>

definition predict_shoe_size ::
  "('v \<Rightarrow> int \<Rightarrow> exn + 'v) \<Rightarrow> int \<Rightarrow> int \<Rightarrow> string \<Rightarrow> ('s, 'v) py_object \<Rightarrow> ('s, 'v) py_object
     \<Rightarrow> 's \<Rightarrow> (exn + 'v option) \<times> 's \<times> 'v event list" where
  "predict_shoe_size round_builtin age height gender model label_encoder s =
     (case predict_shoe_size_try round_builtin age height gender model label_encoder s of
        (Inr r, s', evs) \<Rightarrow> (Inr (Some r), s', evs)
      | (Inl e, s', evs) \<Rightarrow>
          if isinstance_ValueError e then
            (Inr None, s', evs @ [StError (invalid_gender_message gender)])
          else if isinstance_Exception e then
            (Inr None, s', evs @ [StError (prediction_error_message e)])
          else (Inl e, s', evs))"

section \<open>load_models\<close>

text \<open>
  What \<^verbatim>\<open>load_models\<close> asks of the operating system and of \<^verbatim>\<open>pickle\<close>:
  \<^verbatim>\<open>os.path.exists\<close>, \<^verbatim>\<open>open(path, 'rb')\<close> (the file's bytes, or the OSError raised) and
  \<^verbatim>\<open>pickle.load\<close> (the object, or the exception raised on bytes that do not unpickle).
\<close>

record ('s, 'v) os_env =
  path_exists :: "string \<Rightarrow> bool"
  open_rb :: "string \<Rightarrow> exn + string"
  pickle_load :: "string \<Rightarrow> exn + ('s, 'v) py_object"

definition model_path :: string where
  "model_path = ''assets/model.pkl''"

definition encoder_path :: string where
  "encoder_path = ''assets/label_encoder.pkl''"

definition assets_missing_message :: string where
  "assets_missing_message =
     cross_mark @ '' Assets folder not found! Please create an '' @ [CHR 0x27] @ ''assets/'' @ [CHR 0x27]
       @ '' folder with the required model files.''"

definition model_missing_message :: string where
  "model_missing_message = cross_mark @ '' model.pkl not found in assets/ folder!''"

definition encoder_missing_message :: string where
  "encoder_missing_message = cross_mark @ '' label_encoder.pkl not found in assets/ folder!''"

definition loading_error_message :: "exn \<Rightarrow> string" where
  "loading_error_message e = cross_mark @ '' Error loading model files: '' @ str e"

definition ensure_files_message :: string where
  "ensure_files_message =
     ''Please ensure both '' @ [CHR 0x27] @ ''model.pkl'' @ [CHR 0x27] @ '' and '' @ [CHR 0x27]
       @ ''label_encoder.pkl'' @ [CHR 0x27] @ '' are in the '' @ [CHR 0x27] @ ''assets/'' @ [CHR 0x27]
       @ '' folder''"

text \<open>
  The body of the \<^verbatim>\<open>try\<close> block (lines 127 to 150). \<^verbatim>\<open>st.error(...); st.stop()\<close> shows the
  message and raises \<^verbatim>\<open>StopException\<close>. An \<open>Open\<close> or \<open>PickleLoad\<close> event records the
  attempt, also when the call raises.
\<close>

definition load_models_try ::
  "('s, 'v) os_env \<Rightarrow> (exn + ('s, 'v) py_object \<times> ('s, 'v) py_object) \<times> 'v event list" where
  "load_models_try env =
     (if \<not> path_exists env ''assets'' then (Inl StopException, [StError assets_missing_message])
      else if \<not> path_exists env model_path then (Inl StopException, [StError model_missing_message])
      else
        (case open_rb env model_path of
           Inl e \<Rightarrow> (Inl e, [Open model_path])
         | Inr f \<Rightarrow>
             (case pickle_load env f of
                Inl e \<Rightarrow> (Inl e, [Open model_path, PickleLoad model_path])
              | Inr model \<Rightarrow>
                  (let evs = [Open model_path, PickleLoad model_path] in
                   if \<not> path_exists env encoder_path
                   then (Inl StopException, evs @ [StError encoder_missing_message])
                   else
                     (case open_rb env encoder_path of
                        Inl e \<Rightarrow> (Inl e, evs @ [Open encoder_path])
                      | Inr f' \<Rightarrow>
                          (case pickle_load env f' of
                             Inl e \<Rightarrow> (Inl e, evs @ [Open encoder_path, PickleLoad encoder_path])
                           | Inr label_encoder \<Rightarrow>
                               (Inr (model, label_encoder),
                                evs @ [Open encoder_path, PickleLoad encoder_path])))))))"

text \<open>
  The function under the decorator (lines 124 to 155). The handler \<^verbatim>\<open>except Exception\<close>
  shows two messages and stops the script; \<^verbatim>\<open>StopException\<close> raised inside the
  \<^verbatim>\<open>try\<close> block is not an \<^verbatim>\<open>Exception\<close> and passes the handler.
\<close>

definition load_models_uncached ::
  "('s, 'v) os_env \<Rightarrow> (exn + ('s, 'v) py_object \<times> ('s, 'v) py_object) \<times> 'v event list" where
  "load_models_uncached env =
     (case load_models_try env of
        (Inr handles, evs) \<Rightarrow> (Inr handles, evs)
      | (Inl e, evs) \<Rightarrow>
          if isinstance_Exception e
          then (Inl StopException,
                evs @ [StError (loading_error_message e), StError ensure_files_message])
          else (Inl e, evs))"

text \<open>
  \<^verbatim>\<open>@st.cache_resource\<close> (line 123) on a function without arguments: the cache holds at
  most one entry. A call that finds the entry returns it and does not run the function; a
  call that does not runs the function and stores what it returns; a call that raises
  stores nothing. The cache is passed in and returned.
\<close>

definition load_models ::
  "('s, 'v) os_env \<Rightarrow> (('s, 'v) py_object \<times> ('s, 'v) py_object) option
     \<Rightarrow> (exn + ('s, 'v) py_object \<times> ('s, 'v) py_object)
        \<times> (('s, 'v) py_object \<times> ('s, 'v) py_object) option \<times> 'v event list" where
  "load_models env cache =
     (case cache of
        Some handles \<Rightarrow> (Inr handles, Some handles, [])
      | None \<Rightarrow>
          (case load_models_uncached env of
             (Inr handles, evs) \<Rightarrow> (Inr handles, Some handles, evs)
           | (Inl e, evs) \<Rightarrow> (Inl e, None, evs)))"

section \<open>main\<close>

definition gender_options_error_message :: "exn \<Rightarrow> string" where
  "gender_options_error_message e = ''Error loading gender options: '' @ str e"

definition age_range_message :: string where
  "age_range_message = cross_mark @ '' Please enter an age between 1 and 100 years''"

definition height_range_message :: string where
  "height_range_message = cross_mark @ '' Please enter a height between 50 and 250 cm''"

definition select_gender_message :: string where
  "select_gender_message = cross_mark @ '' Please select a gender''"

text \<open>
  The values the widgets of one script run return: the two number inputs, the select box
  (\<^verbatim>\<open>None\<close> when it has no option to offer) and the button.
\<close>

record widgets =
  number_input_age :: int
  number_input_height :: int
  selectbox_gender :: "string option"
  predict_button :: bool

text \<open>Python's \<^verbatim>\<open>not gender\<close>: true of \<^verbatim>\<open>None\<close> and of the empty string.\<close>

fun not_truthy :: "string option \<Rightarrow> bool" where
  "not_truthy None = True"
| "not_truthy (Some g) = (g = [])"

text \<open>
  The block under \<^verbatim>\<open>if predict_button:\<close> (lines 250 to 281): the three guards, then the
  call of \<^verbatim>\<open>predict_shoe_size\<close> and the result block when it returned a value. Past the
  third guard the gender is a non-empty string; the \<open>None\<close> case of the last \<open>case\<close> is
  never reached.
\<close>

definition main_predict ::
  "('v \<Rightarrow> int \<Rightarrow> exn + 'v) \<Rightarrow> int \<Rightarrow> int \<Rightarrow> string option \<Rightarrow> ('s, 'v) py_object \<Rightarrow> ('s, 'v) py_object
     \<Rightarrow> 's \<Rightarrow> (exn + unit) \<times> 's \<times> 'v event list" where
  "main_predict round_builtin age height gender model label_encoder s =
     (if age < 1 \<or> age > 100 then (Inr (), s, [StError age_range_message])
      else if height < 50 \<or> height > 250 then (Inr (), s, [StError height_range_message])
      else if not_truthy gender then (Inr (), s, [StError select_gender_message])
      else
        (case gender of
           None \<Rightarrow> (Inr (), s, [StError select_gender_message])
         | Some g \<Rightarrow>
             (case predict_shoe_size round_builtin age height g model label_encoder s of
                (Inl e, s', evs) \<Rightarrow> (Inl e, s', CallPredictShoeSize age height g # evs)
              | (Inr None, s', evs) \<Rightarrow> (Inr (), s', CallPredictShoeSize age height g # evs)
              | (Inr (Some predicted_size), s', evs) \<Rightarrow>
                  (Inr (), s',
                   CallPredictShoeSize age height g # evs
                     @ [ShowPrediction predicted_size age height g]))))"

text \<open>
  \<^verbatim>\<open>main\<close> (lines 181 to 294) without the static page elements: load the handles, read the
  gender options from the encoder (on an \<^verbatim>\<open>Exception\<close> show a message and take
  \<^verbatim>\<open>"Unknown"\<close>), and run the block above when the button was pressed.
\<close>

definition main ::
  "('s, 'v) os_env \<Rightarrow> ('v \<Rightarrow> int \<Rightarrow> exn + 'v) \<Rightarrow> widgets
     \<Rightarrow> (('s, 'v) py_object \<times> ('s, 'v) py_object) option \<Rightarrow> 's
     \<Rightarrow> (exn + unit) \<times> (('s, 'v) py_object \<times> ('s, 'v) py_object) option \<times> 's \<times> 'v event list" where
  "main env round_builtin w cache s =
     (case load_models env cache of
        (Inl e, cache', evs) \<Rightarrow> (Inl e, cache', s, evs)
      | (Inr (model, label_encoder), cache', evs) \<Rightarrow>
          (let age = number_input_age w; height = number_input_height w in
           case (case classes label_encoder of
                   Inr gender_options \<Rightarrow> (Inr (selectbox_gender w), [])
                 | Inl e \<Rightarrow>
                     if isinstance_Exception e
                     then (Inr (Some ''Unknown''), [StError (gender_options_error_message e)])
                     else (Inl e, [])) of
             (Inl e, evs2) \<Rightarrow> (Inl e, cache', s, evs @ evs2)
           | (Inr gender, evs2) \<Rightarrow>
               if predict_button w then
                 (case main_predict round_builtin age height gender model label_encoder s of
                    (r, s', evs3) \<Rightarrow> (r, cache', s', evs @ evs2 @ evs3))
               else (Inr (), cache', s, evs @ evs2)))"

section \<open>What the claims speak about\<close>

text \<open>
  The encoder's known label set is the content of its \<^verbatim>\<open>classes_\<close> attribute (empty when
  reading the attribute raises).
\<close>

definition known_labels :: "('s, 'v) py_object \<Rightarrow> string set" where
  "known_labels label_encoder = (case classes label_encoder of Inr cs \<Rightarrow> set cs | Inl e \<Rightarrow> {})"

text \<open>
  The behaviour of scikit-learn's \<^verbatim>\<open>LabelEncoder.transform\<close> on a one-element input, which
  the handler \<^verbatim>\<open>except ValueError\<close> of \<^verbatim>\<open>predict_shoe_size\<close> relies on: a known label
  is answered with a one-element array holding its code, any other label with a ValueError.
\<close>

definition label_encoder_contract :: "('s, 'v) py_object \<Rightarrow> bool" where
  "label_encoder_contract label_encoder \<longleftrightarrow>
     (\<forall>g s. (g \<in> known_labels label_encoder \<longrightarrow>
               (\<exists>code s'. transform label_encoder [g] s = (Inr [code], s')))
          \<and> (g \<notin> known_labels label_encoder \<longrightarrow>
               (\<exists>m s'. transform label_encoder [g] s = (Inl (ValueError m), s'))))"

text \<open>
  A deterministic object: what its methods return or raise depends on the argument only,
  not on the hidden state.
\<close>

definition deterministic :: "('s, 'v) py_object \<Rightarrow> bool" where
  "deterministic obj \<longleftrightarrow>
     (\<forall>x s s'. fst (transform obj x s) = fst (transform obj x s'))
   \<and> (\<forall>x s s'. fst (predict obj x s) = fst (predict obj x s'))"



text \<open>The events that reach the encoder, the model or \<^verbatim>\<open>predict_shoe_size\<close>.\<close>

fun calls_collaborator :: "'v event \<Rightarrow> bool" where
  "calls_collaborator (CallTransform x) = True"
| "calls_collaborator (CallPredict x) = True"
| "calls_collaborator (CallPredictShoeSize a h g) = True"
| "calls_collaborator ev = False"

section \<open>A concrete encoder, model and file system\<close>

text \<open>
  Concrete collaborators on which the pipeline can be run: a label encoder over the classes
  \<^verbatim>\<open>['Female', 'Male']\<close> that answers as scikit-learn's does (the code of a label is its
  position, an unseen label is a ValueError), a linear model on three features whose hidden
  state counts its calls, rounding half to even on real numbers, and a file system that
  holds both artifacts.
\<close>

fun index_of :: "'a list \<Rightarrow> 'a \<Rightarrow> int" where
  "index_of [] y = 0"
| "index_of (x # xs) y = (if x = y then 0 else 1 + index_of xs y)"

definition example_labels :: "string list" where
  "example_labels = [''Female'', ''Male'']"

definition example_encoder :: "(nat, real) py_object" where
  "example_encoder =
     \<lparr> transform = (\<lambda>ys s.
          (if set ys \<subseteq> set example_labels then Inr (map (index_of example_labels) ys)
           else Inl (ValueError ''y contains previously unseen labels''), s)),
       predict = (\<lambda>X s. (Inl (Exception ''object has no attribute predict''), s)),
       classes = Inr example_labels \<rparr>"

fun example_row :: "int list \<Rightarrow> real" where
  "example_row [a, h, g] = (12 * of_int a + 50 * of_int h + 500 * of_int g + 291) / 1000"
| "example_row row = 0"

definition example_model :: "(nat, real) py_object" where
  "example_model =
     \<lparr> transform = (\<lambda>ys s. (Inl (Exception ''object has no attribute transform''), s)),
       predict = (\<lambda>X s.
          (if list_all (\<lambda>row. length row = 3) X then Inr (map example_row X)
           else Inl (ValueError ''X has a wrong number of features''), Suc s)),
       classes = Inl (Exception ''object has no attribute classes_'') \<rparr>"

text \<open>A model that rejects every input, and one whose call is interrupted from the keyboard.\<close>

definition failing_model :: "(nat, real) py_object" where
  "failing_model =
     example_model \<lparr> predict := (\<lambda>X s. (Inl (Exception ''model prediction failed''), Suc s)) \<rparr>"


definition round_half_even :: "real \<Rightarrow> int" where
  "round_half_even y =
     (let f = \<lfloor>y\<rfloor>; d = y - of_int f in
      if d < 1 / 2 then f else if 1 / 2 < d then f + 1 else if even f then f else f + 1)"

definition example_round :: "real \<Rightarrow> int \<Rightarrow> exn + real" where
  "example_round x ndigits =
     (if 0 \<le> ndigits
      then Inr (of_int (round_half_even (x * 10 ^ nat ndigits)) / 10 ^ nat ndigits)
      else Inr (of_int (round_half_even (x / 10 ^ nat (- ndigits))) * 10 ^ nat (- ndigits)))"

definition example_env :: "(nat, real) os_env" where
  "example_env =
     \<lparr> path_exists = (\<lambda>p. p = ''assets'' \<or> p = model_path \<or> p = encoder_path),
       open_rb = (\<lambda>p. if p = model_path then Inr ''model bytes''
                       else if p = encoder_path then Inr ''encoder bytes''
                       else Inl (Exception ''No such file or directory'')),
       pickle_load = (\<lambda>b. if b = ''model bytes'' then Inr example_model
                           else if b = ''encoder bytes'' then Inr example_encoder
                           else Inl (Exception ''could not unpickle'')) \<rparr>"

text \<open>The same file system without \<^verbatim>\<open>assets/model.pkl\<close>, and one without anything.\<close>

definition no_model_env :: "(nat, real) os_env" where
  "no_model_env = example_env \<lparr> path_exists := (\<lambda>p. p = ''assets'' \<or> p = encoder_path) \<rparr>"

definition empty_env :: "(nat, real) os_env" where
  "empty_env = example_env \<lparr> path_exists := (\<lambda>p. False) \<rparr>"

definition example_widgets :: widgets where
  "example_widgets = \<lparr> number_input_age = 18, number_input_height = 170,
                        selectbox_gender = Some ''Male'', predict_button = True \<rparr>"

section \<open>Running the concrete pipeline\<close>

lemmas predict_shoe_size_defs = predict_shoe_size_def predict_shoe_size_try_def getitem0_def

lemmas load_models_defs = load_models_def load_models_uncached_def load_models_try_def

lemma example_encoder_contract: "label_encoder_contract example_encoder"
  by (simp add: label_encoder_contract_def known_labels_def example_encoder_def)

lemma example_known_labels: "known_labels example_encoder = {''Female'', ''Male''}"
  by (auto simp add: known_labels_def example_encoder_def example_labels_def)

lemma example_transform_Male: "transform example_encoder [''Male''] s = (Inr [1], s)"
  by (simp add: example_encoder_def example_labels_def)

lemma example_transform_Alien:
  "transform example_encoder [''Alien''] s
     = (Inl (ValueError ''y contains previously unseen labels''), s)"
  by (simp add: example_encoder_def example_labels_def)

lemma example_predict_18_170:
  "predict example_model [[18, 170, 1]] s = (Inr [9507 / 1000], Suc s)"
  by (simp add: example_model_def)

lemma example_predict_0_170:
  "predict example_model [[0, 170, 1]] s = (Inr [9291 / 1000], Suc s)"
  by (simp add: example_model_def)

lemma example_round_9507: "example_round (9507 / 1000) 2 = Inr (951 / 100)"
  by (simp add: example_round_def round_half_even_def Let_def)

lemma example_round_9291: "example_round (9291 / 1000) 2 = Inr (929 / 100)"
  by (simp add: example_round_def round_half_even_def Let_def)

lemma example_run:
  "predict_shoe_size example_round 18 170 ''Male'' example_model example_encoder 0
     = (Inr (Some (951 / 100)), Suc 0, [CallTransform [''Male''], CallPredict [[18, 170, 1]]])"
  by (simp add: predict_shoe_size_defs example_transform_Male example_predict_18_170
      example_round_9507)

lemma example_deterministic: "deterministic example_model" "deterministic example_encoder"
  by (simp_all add: deterministic_def example_model_def example_encoder_def)



lemma example_load:
  "load_models example_env None
     = (Inr (example_model, example_encoder), Some (example_model, example_encoder),
        [Open model_path, PickleLoad model_path, Open encoder_path, PickleLoad encoder_path])"
  by (simp add: load_models_defs example_env_def model_path_def encoder_path_def)

section \<open>The paths through the body of predict_shoe_size\<close>

text \<open>
  The body of the \<^verbatim>\<open>try\<close> block ends in one of six ways; each is named by what the encoder,
  the model and \<^verbatim>\<open>round\<close> did.
\<close>

lemma predict_shoe_size_try_cases:
  fixes model :: "('s, 'v) py_object"
  obtains
    (encoder_raises) e s1 where
      "transform label_encoder [gender] s = (Inl e, s1)"
      "predict_shoe_size_try round_builtin age height gender model label_encoder s
         = (Inl e, s1, [CallTransform [gender]])"
  | (encoder_empty) e s1 where
      "transform label_encoder [gender] s = (Inr [], s1)" "isinstance_Exception e"
      "\<not> isinstance_ValueError e"
      "predict_shoe_size_try round_builtin age height gender model label_encoder s
         = (Inl e, s1, [CallTransform [gender]])"
  | (model_raises) code rest s1 e s2 where
      "transform label_encoder [gender] s = (Inr (code # rest), s1)"
      "predict model [[age, height, code]] s1 = (Inl e, s2)"
      "predict_shoe_size_try round_builtin age height gender model label_encoder s
         = (Inl e, s2, [CallTransform [gender], CallPredict [[age, height, code]]])"
  | (model_empty) code rest s1 e s2 where
      "transform label_encoder [gender] s = (Inr (code # rest), s1)"
      "predict model [[age, height, code]] s1 = (Inr [], s2)" "isinstance_Exception e"
      "\<not> isinstance_ValueError e"
      "predict_shoe_size_try round_builtin age height gender model label_encoder s
         = (Inl e, s2, [CallTransform [gender], CallPredict [[age, height, code]]])"
  | (round_raises) code rest s1 raw rest' s2 e where
      "transform label_encoder [gender] s = (Inr (code # rest), s1)"
      "predict model [[age, height, code]] s1 = (Inr (raw # rest'), s2)"
      "round_builtin raw 2 = Inl e"
      "predict_shoe_size_try round_builtin age height gender model label_encoder s
         = (Inl e, s2, [CallTransform [gender], CallPredict [[age, height, code]]])"
  | (rounded) code rest s1 raw rest' s2 r where
      "transform label_encoder [gender] s = (Inr (code # rest), s1)"
      "predict model [[age, height, code]] s1 = (Inr (raw # rest'), s2)"
      "round_builtin raw 2 = Inr r"
      "predict_shoe_size_try round_builtin age height gender model label_encoder s
         = (Inr r, s2, [CallTransform [gender], CallPredict [[age, height, code]]])"
proof -
  obtain t s1 where a: "transform label_encoder [gender] s = (t, s1)"
    by (cases "transform label_encoder [gender] s")
  show thesis
  proof (cases t)
    case (Inl e)
    with a show thesis by (intro encoder_raises [of e s1]) (simp_all add: predict_shoe_size_try_def)
  next
    case (Inr codes)
    show thesis
    proof (cases codes)
      case Nil
      with a Inr show thesis
        by (intro encoder_empty [of s1 "Exception ''index 0 is out of bounds for axis 0 with size 0''"])
           (simp_all add: predict_shoe_size_try_def getitem0_def)
    next
      case (Cons code rest)
      obtain p s2 where c: "predict model [[age, height, code]] s1 = (p, s2)"
        by (cases "predict model [[age, height, code]] s1")
      show thesis
      proof (cases p)
        case (Inl e)
        with a Inr Cons c show thesis
          by (intro model_raises [of code rest s1 e s2])
             (simp_all add: predict_shoe_size_try_def getitem0_def)
      next
        case ys: (Inr ys)
        show thesis
        proof (cases ys)
          case Nil
          with a Inr Cons c ys show thesis
            by (intro model_empty [of code rest s1 s2 "Exception ''index 0 is out of bounds for axis 0 with size 0''"])
               (simp_all add: predict_shoe_size_try_def getitem0_def)
        next
          case raw: (Cons raw rest')
          show thesis
          proof (cases "round_builtin raw 2")
            case (Inl e)
            with a Inr Cons c ys raw show thesis
              by (intro round_raises [of code rest s1 raw rest' s2 e])
                 (simp_all add: predict_shoe_size_try_def getitem0_def)
          next
            case r: (Inr r)
            with a Inr Cons c ys raw show thesis
              by (intro rounded [of code rest s1 raw rest' s2 r])
                 (simp_all add: predict_shoe_size_try_def getitem0_def)
          qed
        qed
      qed
    qed
  qed
qed

section \<open>Events of the three functions\<close>

lemma load_models_no_calls:
  "load_models env cache = (r, cache', evs) \<Longrightarrow> ev \<in> set evs \<Longrightarrow> \<not> calls_collaborator ev"
  by (auto simp add: load_models_defs Let_def
      split: option.splits prod.splits sum.splits if_splits)

lemma predict_shoe_size_events:
  fixes model :: "('s, 'v) py_object"
  assumes "predict_shoe_size round_builtin age height gender model label_encoder s = (r, s', evs)"
    and "ev \<in> set evs"
  shows "ev = CallTransform [gender] \<or> (\<exists>code. ev = CallPredict [[age, height, code]])
       \<or> (\<exists>m. ev = StError m)"
  using assms
  by (cases rule: predict_shoe_size_try_cases
        [of label_encoder gender s round_builtin age height model])
     (auto simp add: predict_shoe_size_def split: if_splits)

lemma main_predict_events:
  assumes "main_predict round_builtin age height gender model label_encoder s = (r, s', evs)"
    and "ev \<in> set evs" and "calls_collaborator ev"
  shows "1 \<le> age \<and> age \<le> 100 \<and> 50 \<le> height \<and> height \<le> 250
       \<and> (\<exists>g. gender = Some g \<and> g \<noteq> [] \<and>
            (ev = CallPredictShoeSize age height g \<or> ev = CallTransform [g]
             \<or> (\<exists>code. ev = CallPredict [[age, height, code]])))"
proof (cases "age < 1 \<or> age > 100 \<or> height < 50 \<or> height > 250 \<or> not_truthy gender")
  case True
  with assms show ?thesis by (auto simp add: main_predict_def split: if_splits)
next
  case False
  then obtain g where g: "gender = Some g" "g \<noteq> []" by (cases gender) auto
  obtain r0 s0 evs0
    where p: "predict_shoe_size round_builtin age height g model label_encoder s = (r0, s0, evs0)"
    by (cases "predict_shoe_size round_builtin age height g model label_encoder s")
  from assms(1) False g p
  have "set evs \<subseteq> {CallPredictShoeSize age height g} \<union> set evs0
                   \<union> {ev. \<exists>v a h x. ev = ShowPrediction v a h x}"
    by (auto simp add: main_predict_def split: sum.splits option.splits)
  with assms(2,3) have "ev = CallPredictShoeSize age height g \<or> ev \<in> set evs0" by auto
  then show ?thesis
  proof
    assume "ev = CallPredictShoeSize age height g"
    with False g show ?thesis by simp
  next
    assume "ev \<in> set evs0"
    from predict_shoe_size_events [OF p this] assms(3)
    have "ev = CallTransform [g] \<or> (\<exists>code. ev = CallPredict [[age, height, code]])" by auto
    with False g show ?thesis by auto
  qed
qed

section \<open>The prediction service\<close>

text \<open>
  C1. For every age in [1,100], every height in [50,250] and every gender in the encoder's
  known label set, \<^verbatim>\<open>predict_shoe_size\<close> returns the model's raw output for the feature
  vector \<^verbatim>\<open>[age, height, encode(gender)]\<close>, rounded to 2 decimal places: the encoder
  answers with a code, and whenever the model answers the one-row input built from that code
  with a raw value that \<^verbatim>\<open>round\<close> accepts, the function returns \<^verbatim>\<open>round(raw, 2)\<close>, having
  called the encoder once and the model once.
\<close>

theorem predict_shoe_size_valid_input:
  assumes "1 \<le> age" and "age \<le> 100" and "50 \<le> height" and "height \<le> 250"
    and "label_encoder_contract label_encoder"
    and "gender \<in> known_labels label_encoder"
  shows "\<exists>code s1. transform label_encoder [gender] s = (Inr [code], s1) \<and>
           (\<forall>raw rest s2 r.
              predict model [[age, height, code]] s1 = (Inr (raw # rest), s2) \<longrightarrow>
              round_builtin raw 2 = Inr r \<longrightarrow>
              predict_shoe_size round_builtin age height gender model label_encoder s
                = (Inr (Some r), s2, [CallTransform [gender], CallPredict [[age, height, code]]]))"
proof -
  from assms(5,6) obtain code s1 where t: "transform label_encoder [gender] s = (Inr [code], s1)"
    unfolding label_encoder_contract_def by blast
  have "predict_shoe_size round_builtin age height gender model label_encoder s
          = (Inr (Some r), s2, [CallTransform [gender], CallPredict [[age, height, code]]])"
    if "predict model [[age, height, code]] s1 = (Inr (raw # rest), s2)"
      and "round_builtin raw 2 = Inr r"
    for raw rest s2 r
    using t that by (simp add: predict_shoe_size_defs)
  with t show ?thesis by blast
qed

theorem predict_shoe_size_valid_input_witness:
  "(1::int) \<le> 18 \<and> (18::int) \<le> 100 \<and> (50::int) \<le> 170 \<and> (170::int) \<le> 250
   \<and> label_encoder_contract example_encoder \<and> ''Male'' \<in> known_labels example_encoder
   \<and> predict_shoe_size example_round 18 170 ''Male'' example_model example_encoder 0
       = (Inr (Some (951 / 100)), 1, [CallTransform [''Male''], CallPredict [[18, 170, 1]]])"
proof -
  have k: "''Male'' \<in> known_labels example_encoder" by (simp add: example_known_labels)
  from predict_shoe_size_valid_input
         [of 18 170 example_encoder "''Male''" 0 example_model example_round,
          OF _ _ _ _ example_encoder_contract k]
  obtain code s1 where t: "transform example_encoder [''Male''] 0 = (Inr [code], s1)"
    and h: "\<And>raw rest s2 r.
              predict example_model [[18, 170, code]] s1 = (Inr (raw # rest), s2) \<Longrightarrow>
              example_round raw 2 = Inr r \<Longrightarrow>
              predict_shoe_size example_round 18 170 ''Male'' example_model example_encoder 0
                = (Inr (Some r), s2, [CallTransform [''Male''], CallPredict [[18, 170, code]]])"
    by auto
  from t have c: "code = 1" "s1 = 0" by (simp_all add: example_transform_Male)
  have "predict_shoe_size example_round 18 170 ''Male'' example_model example_encoder 0
          = (Inr (Some (951 / 100)), Suc 0, [CallTransform [''Male''], CallPredict [[18, 170, 1]]])"
    using h [of "9507 / 1000" "[]" "Suc 0" "951 / 100"] c
    by (simp add: example_predict_18_170 example_round_9507)
  with k example_encoder_contract show ?thesis by simp
qed

text \<open>
  C2, as claimed: for every age below 1 or above 100 (and every height outside [50,250]) a
  call of \<^verbatim>\<open>predict_shoe_size\<close> itself fails with an error naming the field. The function
  has no range check: with age 0 it calls the encoder and the model and returns the rounded
  prediction, and shows no message.
\<close>

theorem predict_shoe_size_range_counterexample:
  "predict_shoe_size example_round 0 170 ''Male'' example_model example_encoder 0
     = (Inr (Some (929 / 100)), 1, [CallTransform [''Male''], CallPredict [[0, 170, 1]]])"
  by (simp add: predict_shoe_size_defs example_transform_Male example_predict_0_170
      example_round_9291)

text \<open>
  C2, amended: the range validation is done by the caller. For an age below 1 or above 100
  the button handler of \<^verbatim>\<open>main\<close> shows the message naming the age and calls nothing; for
  an age in range and a height below 50 or above 250 it shows the message naming the height
  and calls nothing. \<^verbatim>\<open>predict_shoe_size\<close> itself checks no range: for any age and height,
  when the encoder returns a code and the model a value that rounds, it returns the rounded
  value.
\<close>

theorem range_validation_in_main:
  "(age < 1 \<or> 100 < age \<longrightarrow>
      main_predict round_builtin age height gender model label_encoder s
        = (Inr (), s, [StError age_range_message]))
 \<and> (1 \<le> age \<and> age \<le> 100 \<and> (height < 50 \<or> 250 < height) \<longrightarrow>
      main_predict round_builtin age height gender model label_encoder s
        = (Inr (), s, [StError height_range_message]))
 \<and> (\<forall>g code rest s1 raw rest' s2 r.
      transform label_encoder [g] s = (Inr (code # rest), s1) \<longrightarrow>
      predict model [[age, height, code]] s1 = (Inr (raw # rest'), s2) \<longrightarrow>
      round_builtin raw 2 = Inr r \<longrightarrow>
      predict_shoe_size round_builtin age height g model label_encoder s
        = (Inr (Some r), s2, [CallTransform [g], CallPredict [[age, height, code]]]))"
proof (intro conjI allI impI)
  assume "age < 1 \<or> 100 < age"
  then show "main_predict round_builtin age height gender model label_encoder s
        = (Inr (), s, [StError age_range_message])"
    by (auto simp add: main_predict_def)
next
  assume "1 \<le> age \<and> age \<le> 100 \<and> (height < 50 \<or> 250 < height)"
  then show "main_predict round_builtin age height gender model label_encoder s
        = (Inr (), s, [StError height_range_message])"
    by (auto simp add: main_predict_def)
next
  fix g code rest s1 raw rest' s2 r
  assume "transform label_encoder [g] s = (Inr (code # rest), s1)"
    and "predict model [[age, height, code]] s1 = (Inr (raw # rest'), s2)"
    and "round_builtin raw 2 = Inr r"
  then show "predict_shoe_size round_builtin age height g model label_encoder s
        = (Inr (Some r), s2, [CallTransform [g], CallPredict [[age, height, code]]])"
    by (simp add: predict_shoe_size_defs)
qed

theorem range_validation_in_main_witness:
  "(0::int) < 1
   \<and> main_predict example_round 0 170 (Some ''Male'') example_model example_encoder 0
       = (Inr (), 0, [StError age_range_message])
   \<and> (1::int) \<le> 18 \<and> (18::int) \<le> 100 \<and> (250::int) < 300
   \<and> main_predict example_round 18 300 (Some ''Male'') example_model example_encoder 0
       = (Inr (), 0, [StError height_range_message])
   \<and> predict_shoe_size example_round 0 170 ''Male'' example_model example_encoder 0
       = (Inr (Some (929 / 100)), 1, [CallTransform [''Male''], CallPredict [[0, 170, 1]]])"
proof -
  note a = range_validation_in_main
             [of 0 example_round 170 "Some ''Male''" example_model example_encoder 0]
  note b = range_validation_in_main
             [of 18 example_round 300 "Some ''Male''" example_model example_encoder 0]
  from a have 1: "main_predict example_round 0 170 (Some ''Male'') example_model example_encoder 0
       = (Inr (), 0, [StError age_range_message])" by simp
  from b have 2: "main_predict example_round 18 300 (Some ''Male'') example_model example_encoder 0
       = (Inr (), 0, [StError height_range_message])" by simp
  from a have "\<forall>g code rest s1 raw rest' s2 r.
      transform example_encoder [g] 0 = (Inr (code # rest), s1) \<longrightarrow>
      predict example_model [[0, 170, code]] s1 = (Inr (raw # rest'), s2) \<longrightarrow>
      example_round raw 2 = Inr r \<longrightarrow>
      predict_shoe_size example_round 0 170 g example_model example_encoder 0
        = (Inr (Some r), s2, [CallTransform [g], CallPredict [[0, 170, code]]])" by blast
  from this [rule_format, OF example_transform_Male example_predict_0_170 example_round_9291]
  have 3: "predict_shoe_size example_round 0 170 ''Male'' example_model example_encoder 0
       = (Inr (Some (929 / 100)), 1, [CallTransform [''Male''], CallPredict [[0, 170, 1]]])"
    by simp
  from 1 2 3 show ?thesis by simp
qed

text \<open>
  C3. For every gender that is not in the encoder's known label set (the empty string
  included), \<^verbatim>\<open>predict_shoe_size\<close> fails with the validation message that names the gender
  value, and the model is not invoked: the call returns \<^verbatim>\<open>None\<close>, its events are the call
  of the encoder and the message \<^verbatim>\<open>Invalid gender value: <gender>\<close>, no event is a call of
  the model, and the state it leaves is the one the encoder left.
\<close>

theorem predict_shoe_size_unknown_gender:
  assumes "label_encoder_contract label_encoder"
    and "gender \<notin> known_labels label_encoder"
  shows "\<exists>evs. predict_shoe_size round_builtin age height gender model label_encoder s
           = (Inr None, snd (transform label_encoder [gender] s), evs)
         \<and> evs = [CallTransform [gender], StError (invalid_gender_message gender)]
         \<and> (\<exists>before after. invalid_gender_message gender = before @ gender @ after)
         \<and> (\<forall>x. CallPredict x \<notin> set evs)"
proof -
  from assms obtain m s' where t: "transform label_encoder [gender] s = (Inl (ValueError m), s')"
    unfolding label_encoder_contract_def by blast
  have "invalid_gender_message gender
          = (cross_mark @ '' Invalid gender value: '') @ gender
              @ ''. Please select from available options.''"
    by (simp add: invalid_gender_message_def)
  then have "\<exists>before after. invalid_gender_message gender = before @ gender @ after" by blast
  with t show ?thesis by (simp add: predict_shoe_size_defs)
qed

theorem predict_shoe_size_unknown_gender_witness:
  "label_encoder_contract example_encoder
   \<and> ''Alien'' \<notin> known_labels example_encoder \<and> '''' \<notin> known_labels example_encoder
   \<and> predict_shoe_size example_round 25 180 ''Alien'' example_model example_encoder 0
       = (Inr None, 0, [CallTransform [''Alien''], StError (invalid_gender_message ''Alien'')])
   \<and> predict_shoe_size example_round 25 180 '''' example_model example_encoder 0
       = (Inr None, 0, [CallTransform [''''], StError (invalid_gender_message '''')])"
proof -
  have k: "''Alien'' \<notin> known_labels example_encoder" "'''' \<notin> known_labels example_encoder"
    by (simp_all add: example_known_labels)
  have s: "snd (transform example_encoder [g] 0) = 0" for g
    by (simp add: example_encoder_def)
  from predict_shoe_size_unknown_gender [OF example_encoder_contract k(1), of example_round 25 180 example_model 0]
  have 1: "predict_shoe_size example_round 25 180 ''Alien'' example_model example_encoder 0
       = (Inr None, 0, [CallTransform [''Alien''], StError (invalid_gender_message ''Alien'')])"
    by (auto simp add: s)
  from predict_shoe_size_unknown_gender [OF example_encoder_contract k(2), of example_round 25 180 example_model 0]
  have 2: "predict_shoe_size example_round 25 180 '''' example_model example_encoder 0
       = (Inr None, 0, [CallTransform [''''], StError (invalid_gender_message '''')])"
    by (auto simp add: s)
  from example_encoder_contract k 1 2 show ?thesis by simp
qed

text \<open>
  C4. In every prediction call the feature vector handed to the model is the single row
  \<^verbatim>\<open>[age, height, gender_code]\<close> in this order, where \<^verbatim>\<open>gender_code\<close> is element 0 of what
  the encoder returned for the input gender: every call of the model in the events has
  this argument, a call in which the encoder returned a code makes exactly this one call of
  the model, and the result depends on the model only through its answer to this argument.
\<close>

theorem predict_shoe_size_feature_order:
  fixes model :: "('s, 'v) py_object"
  assumes "predict_shoe_size round_builtin age height gender model label_encoder s = (r, s', evs)"
  shows "(\<forall>x. CallPredict x \<in> set evs \<longrightarrow>
            (\<exists>code rest s1. transform label_encoder [gender] s = (Inr (code # rest), s1)
                           \<and> x = [[age, height, code]]))
       \<and> (\<forall>code rest s1. transform label_encoder [gender] s = (Inr (code # rest), s1) \<longrightarrow>
            filter (\<lambda>ev. \<exists>x. ev = CallPredict x) evs = [CallPredict [[age, height, code]]])
       \<and> (\<forall>model' :: ('s, 'v) py_object.
            (\<forall>code rest s1. transform label_encoder [gender] s = (Inr (code # rest), s1) \<longrightarrow>
               predict model' [[age, height, code]] s1 = predict model [[age, height, code]] s1) \<longrightarrow>
            predict_shoe_size round_builtin age height gender model' label_encoder s = (r, s', evs))"
    (is "?only \<and> ?once \<and> ?through")
proof (intro conjI)
  show ?only
    using assms
    by (cases rule: predict_shoe_size_try_cases
          [of label_encoder gender s round_builtin age height model])
       (auto simp add: predict_shoe_size_def split: if_splits)
next
  show ?once
    using assms
    by (cases rule: predict_shoe_size_try_cases
          [of label_encoder gender s round_builtin age height model])
       (auto simp add: predict_shoe_size_def split: if_splits)
next
  show ?through
  proof (intro allI impI)
    fix model' :: "('s, 'v) py_object"
    assume h: "\<forall>code rest s1. transform label_encoder [gender] s = (Inr (code # rest), s1) \<longrightarrow>
               predict model' [[age, height, code]] s1 = predict model [[age, height, code]] s1"
    have "predict_shoe_size round_builtin age height gender model' label_encoder s
        = predict_shoe_size round_builtin age height gender model label_encoder s"
      using h
      by (cases rule: predict_shoe_size_try_cases
            [of label_encoder gender s round_builtin age height model])
         (simp_all add: predict_shoe_size_defs)
    with assms show "predict_shoe_size round_builtin age height gender model' label_encoder s
        = (r, s', evs)" by simp
  qed
qed

theorem predict_shoe_size_feature_order_witness:
  "predict_shoe_size example_round 18 170 ''Male'' example_model example_encoder 0
     = (Inr (Some (951 / 100)), Suc 0, [CallTransform [''Male''], CallPredict [[18, 170, 1]]])
   \<and> CallPredict [[18, 170, 1]]
       \<in> set [CallTransform [''Male''], CallPredict [[18, 170, 1]] :: real event]
   \<and> transform example_encoder [''Male''] 0 = (Inr [1], 0)
   \<and> filter (\<lambda>ev. \<exists>x. ev = CallPredict x)
        [CallTransform [''Male''], CallPredict [[18, 170, 1]] :: real event]
       = [CallPredict [[18, 170, 1]]]"
proof -
  note t = predict_shoe_size_feature_order [OF example_run]
  from t have "\<forall>code rest s1. transform example_encoder [''Male''] 0 = (Inr (code # rest), s1) \<longrightarrow>
            filter (\<lambda>ev. \<exists>x. ev = CallPredict x)
              [CallTransform [''Male''], CallPredict [[18, 170, 1]] :: real event]
              = [CallPredict [[18, 170, code]]]"
    by blast
  from this [rule_format, OF example_transform_Male]
  have "filter (\<lambda>ev. \<exists>x. ev = CallPredict x)
          [CallTransform [''Male''], CallPredict [[18, 170, 1]] :: real event]
        = [CallPredict [[18, 170, 1]]]" .
  with example_run example_transform_Male show ?thesis by simp
qed

text \<open>
  C5. A failing prediction call returns \<^verbatim>\<open>None\<close> and never a number. When the encoder
  raises an \<^verbatim>\<open>Exception\<close> (the ValueError of an unknown gender, or any other encoding
  failure) or returns an empty array, when the model raises an \<^verbatim>\<open>Exception\<close> or returns an
  empty array, or when \<^verbatim>\<open>round\<close> raises an \<^verbatim>\<open>Exception\<close>, the result is \<^verbatim>\<open>None\<close>. A
  returned number is always \<^verbatim>\<open>round(raw, 2)\<close> of a value \<^verbatim>\<open>raw\<close> that the model returned
  for the feature vector built from a code the encoder returned: no default stands in.
\<close>

theorem predict_shoe_size_failure_returns_None:
  fixes model :: "('s, 'v) py_object"
  shows
  "(\<forall>e s1. transform label_encoder [gender] s = (Inl e, s1) \<longrightarrow> isinstance_Exception e \<longrightarrow>
      fst (predict_shoe_size round_builtin age height gender model label_encoder s) = Inr None)
 \<and> (\<forall>s1. transform label_encoder [gender] s = (Inr [], s1) \<longrightarrow>
      fst (predict_shoe_size round_builtin age height gender model label_encoder s) = Inr None)
 \<and> (\<forall>code rest s1 e s2. transform label_encoder [gender] s = (Inr (code # rest), s1) \<longrightarrow>
      predict model [[age, height, code]] s1 = (Inl e, s2) \<longrightarrow> isinstance_Exception e \<longrightarrow>
      fst (predict_shoe_size round_builtin age height gender model label_encoder s) = Inr None)
 \<and> (\<forall>code rest s1 s2. transform label_encoder [gender] s = (Inr (code # rest), s1) \<longrightarrow>
      predict model [[age, height, code]] s1 = (Inr [], s2) \<longrightarrow>
      fst (predict_shoe_size round_builtin age height gender model label_encoder s) = Inr None)
 \<and> (\<forall>code rest s1 raw rest' s2 e.
      transform label_encoder [gender] s = (Inr (code # rest), s1) \<longrightarrow>
      predict model [[age, height, code]] s1 = (Inr (raw # rest'), s2) \<longrightarrow>
      round_builtin raw 2 = Inl e \<longrightarrow> isinstance_Exception e \<longrightarrow>
      fst (predict_shoe_size round_builtin age height gender model label_encoder s) = Inr None)
 \<and> (\<forall>v. fst (predict_shoe_size round_builtin age height gender model label_encoder s)
           = Inr (Some v) \<longrightarrow>
      (\<exists>code rest s1 raw rest' s2.
         transform label_encoder [gender] s = (Inr (code # rest), s1)
       \<and> predict model [[age, height, code]] s1 = (Inr (raw # rest'), s2)
       \<and> round_builtin raw 2 = Inr v))"
proof (intro conjI)
  show "\<forall>e s1. transform label_encoder [gender] s = (Inl e, s1) \<longrightarrow> isinstance_Exception e \<longrightarrow>
      fst (predict_shoe_size round_builtin age height gender model label_encoder s) = Inr None"
    by (simp add: predict_shoe_size_defs)
next
  show "\<forall>s1. transform label_encoder [gender] s = (Inr [], s1) \<longrightarrow>
      fst (predict_shoe_size round_builtin age height gender model label_encoder s) = Inr None"
    by (simp add: predict_shoe_size_defs)
next
  show "\<forall>code rest s1 e s2. transform label_encoder [gender] s = (Inr (code # rest), s1) \<longrightarrow>
      predict model [[age, height, code]] s1 = (Inl e, s2) \<longrightarrow> isinstance_Exception e \<longrightarrow>
      fst (predict_shoe_size round_builtin age height gender model label_encoder s) = Inr None"
    by (simp add: predict_shoe_size_defs)
next
  show "\<forall>code rest s1 s2. transform label_encoder [gender] s = (Inr (code # rest), s1) \<longrightarrow>
      predict model [[age, height, code]] s1 = (Inr [], s2) \<longrightarrow>
      fst (predict_shoe_size round_builtin age height gender model label_encoder s) = Inr None"
    by (simp add: predict_shoe_size_defs)
next
  show "\<forall>code rest s1 raw rest' s2 e.
      transform label_encoder [gender] s = (Inr (code # rest), s1) \<longrightarrow>
      predict model [[age, height, code]] s1 = (Inr (raw # rest'), s2) \<longrightarrow>
      round_builtin raw 2 = Inl e \<longrightarrow> isinstance_Exception e \<longrightarrow>
      fst (predict_shoe_size round_builtin age height gender model label_encoder s) = Inr None"
    by (simp add: predict_shoe_size_defs)
next
  show "\<forall>v. fst (predict_shoe_size round_builtin age height gender model label_encoder s)
           = Inr (Some v) \<longrightarrow>
      (\<exists>code rest s1 raw rest' s2.
         transform label_encoder [gender] s = (Inr (code # rest), s1)
       \<and> predict model [[age, height, code]] s1 = (Inr (raw # rest'), s2)
       \<and> round_builtin raw 2 = Inr v)"
    by (cases rule: predict_shoe_size_try_cases
          [of label_encoder gender s round_builtin age height model])
       (auto simp add: predict_shoe_size_def split: if_splits)
qed

theorem predict_shoe_size_failure_returns_None_witness:
  "transform example_encoder [''Alien''] 0
     = (Inl (ValueError ''y contains previously unseen labels''), 0)
   \<and> isinstance_Exception (ValueError ''y contains previously unseen labels'')
   \<and> fst (predict_shoe_size example_round 25 180 ''Alien'' example_model example_encoder 0)
       = Inr None
   \<and> transform example_encoder [''Male''] 0 = (Inr [1], 0)
   \<and> predict failing_model [[18, 170, 1]] 0 = (Inl (Exception ''model prediction failed''), 1)
   \<and> isinstance_Exception (Exception ''model prediction failed'')
   \<and> fst (predict_shoe_size example_round 18 170 ''Male'' failing_model example_encoder 0)
       = Inr None"
proof -
  have i: "isinstance_Exception (ValueError ''y contains previously unseen labels'')"
    "isinstance_Exception (Exception ''model prediction failed'')" by simp_all
  have p: "predict failing_model [[18, 170, 1]] 0 = (Inl (Exception ''model prediction failed''), Suc 0)"
    by (simp add: failing_model_def)
  note a = predict_shoe_size_failure_returns_None
             [of example_encoder "''Alien''" 0 example_round 25 180 example_model]
  note b = predict_shoe_size_failure_returns_None
             [of example_encoder "''Male''" 0 example_round 18 170 failing_model]
  from a have "\<forall>e s1. transform example_encoder [''Alien''] 0 = (Inl e, s1) \<longrightarrow>
      isinstance_Exception e \<longrightarrow>
      fst (predict_shoe_size example_round 25 180 ''Alien'' example_model example_encoder 0)
        = Inr None" by blast
  from this [rule_format, OF example_transform_Alien i(1)]
  have 1: "fst (predict_shoe_size example_round 25 180 ''Alien'' example_model example_encoder 0)
        = Inr None" .
  from b have "\<forall>code rest s1 e s2.
      transform example_encoder [''Male''] 0 = (Inr (code # rest), s1) \<longrightarrow>
      predict failing_model [[18, 170, code]] s1 = (Inl e, s2) \<longrightarrow> isinstance_Exception e \<longrightarrow>
      fst (predict_shoe_size example_round 18 170 ''Male'' failing_model example_encoder 0)
        = Inr None" by blast
  from this [rule_format, OF example_transform_Male p i(2)]
  have 2: "fst (predict_shoe_size example_round 18 170 ''Male'' failing_model example_encoder 0)
        = Inr None" .
  from i p 1 2 example_transform_Alien example_transform_Male show ?thesis by simp
qed

text \<open>
  C8. \<^verbatim>\<open>predict_shoe_size\<close> is deterministic: when what the model's \<^verbatim>\<open>predict\<close> and the
  encoder's \<^verbatim>\<open>transform\<close> return depends on their argument only, two calls with the same
  age, height, gender and handles give the same result and show the same messages,
  whatever the hidden state of the process at each call (the second call of a pair starts
  in the state the first one left).
\<close>

theorem predict_shoe_size_deterministic:
  fixes model :: "('s, 'v) py_object"
  assumes "deterministic model" and "deterministic label_encoder"
  shows "fst (predict_shoe_size round_builtin age height gender model label_encoder s)
       = fst (predict_shoe_size round_builtin age height gender model label_encoder s')
       \<and> snd (snd (predict_shoe_size round_builtin age height gender model label_encoder s))
       = snd (snd (predict_shoe_size round_builtin age height gender model label_encoder s'))"
proof -
  obtain t s1 where a: "transform label_encoder [gender] s = (t, s1)"
    by (cases "transform label_encoder [gender] s")
  obtain t' s1' where b: "transform label_encoder [gender] s' = (t', s1')"
    by (cases "transform label_encoder [gender] s'")
  from assms(2) a b have tt: "t' = t" unfolding deterministic_def by (metis fst_conv)
  show ?thesis
  proof (cases t)
    case (Inl e)
    with a b tt show ?thesis by (simp add: predict_shoe_size_defs)
  next
    case (Inr codes)
    show ?thesis
    proof (cases codes)
      case Nil
      with a b tt Inr show ?thesis by (simp add: predict_shoe_size_defs)
    next
      case (Cons code rest)
      obtain p s2 where c: "predict model [[age, height, code]] s1 = (p, s2)"
        by (cases "predict model [[age, height, code]] s1")
      obtain p' s2' where d: "predict model [[age, height, code]] s1' = (p', s2')"
        by (cases "predict model [[age, height, code]] s1'")
      from assms(1) c d have pp: "p' = p" unfolding deterministic_def by (metis fst_conv)
      from a b tt Inr Cons c d pp show ?thesis
        by (simp add: predict_shoe_size_defs Let_def split: sum.splits list.splits)
    qed
  qed
qed

theorem predict_shoe_size_deterministic_witness:
  "deterministic example_model \<and> deterministic example_encoder
   \<and> fst (predict_shoe_size example_round 18 170 ''Male'' example_model example_encoder (Suc 0))
       = Inr (Some (951 / 100))
   \<and> snd (snd (predict_shoe_size example_round 18 170 ''Male'' example_model example_encoder
                 (Suc 0)))
       = [CallTransform [''Male''], CallPredict [[18, 170, 1]]]"
proof -
  note d = predict_shoe_size_deterministic
             [OF example_deterministic, of example_round 18 170 "''Male''" "Suc 0" 0]
  from d example_run
  have "fst (predict_shoe_size example_round 18 170 ''Male'' example_model example_encoder (Suc 0))
       = Inr (Some (951 / 100))"
    and "snd (snd (predict_shoe_size example_round 18 170 ''Male'' example_model example_encoder
                 (Suc 0)))
       = [CallTransform [''Male''], CallPredict [[18, 170, 1]]]"
    by simp_all
  with example_deterministic show ?thesis by simp
qed




section \<open>The loader\<close>

text \<open>
  C6. \<^verbatim>\<open>load_models\<close> is idempotent. When the first call of a process (empty cache) returns
  handles, it has opened and unpickled each of the two artifacts exactly once, and a later
  call returns the same handles from the cache, with the cache unchanged and without
  opening or unpickling anything, whatever the storage holds by then.
\<close>

theorem load_models_idempotent:
  assumes "load_models env None = (Inr handles, cache', evs)"
  shows "load_models env' cache' = (Inr handles, cache', [])
       \<and> evs = [Open model_path, PickleLoad model_path, Open encoder_path, PickleLoad encoder_path]"
  using assms
  by (auto simp add: load_models_defs Let_def split: prod.splits sum.splits if_splits)

theorem load_models_idempotent_witness:
  "load_models example_env None
     = (Inr (example_model, example_encoder), Some (example_model, example_encoder),
        [Open model_path, PickleLoad model_path, Open encoder_path, PickleLoad encoder_path])
   \<and> load_models empty_env (Some (example_model, example_encoder))
     = (Inr (example_model, example_encoder), Some (example_model, example_encoder), [])"
  using load_models_idempotent [OF example_load, of empty_env] example_load by simp

text \<open>
  C7. When \<^verbatim>\<open>assets/model.pkl\<close> is absent (in an existing \<^verbatim>\<open>assets\<close> directory),
  \<^verbatim>\<open>load_models\<close> stops the script with the message that names \<^verbatim>\<open>model.pkl\<close>, which differs
  from the messages for a missing directory and a missing encoder, and it neither opens nor
  unpickles the encoder artifact. No load failure returns or caches a handle: a call that
  raises leaves the cache empty, and a call that returns handles has opened and unpickled
  both artifacts.
\<close>

theorem load_models_missing_model:
  "(path_exists env ''assets'' \<and> \<not> path_exists env model_path \<longrightarrow>
      (\<exists>evs. load_models env None = (Inl StopException, None, evs)
           \<and> evs = [StError model_missing_message]
           \<and> Open encoder_path \<notin> set evs \<and> PickleLoad encoder_path \<notin> set evs))
 \<and> model_missing_message \<noteq> assets_missing_message
 \<and> model_missing_message \<noteq> encoder_missing_message
 \<and> (\<forall>e cache' evs. load_models env None = (Inl e, cache', evs) \<longrightarrow> cache' = None)
 \<and> (\<forall>model label_encoder cache' evs.
      load_models env None = (Inr (model, label_encoder), cache', evs) \<longrightarrow>
      (\<exists>f f'. open_rb env model_path = Inr f \<and> pickle_load env f = Inr model
            \<and> open_rb env encoder_path = Inr f' \<and> pickle_load env f' = Inr label_encoder))"
proof -
  have 1: "path_exists env ''assets'' \<and> \<not> path_exists env model_path \<longrightarrow>
      (\<exists>evs. load_models env None = (Inl StopException, None, evs)
           \<and> evs = [StError model_missing_message]
           \<and> Open encoder_path \<notin> set evs \<and> PickleLoad encoder_path \<notin> set evs)"
    by (simp add: load_models_defs)
  have 2: "model_missing_message \<noteq> assets_missing_message"
    by (simp add: model_missing_message_def assets_missing_message_def)
  have 3: "model_missing_message \<noteq> encoder_missing_message"
    by (simp add: model_missing_message_def encoder_missing_message_def)
  have 4: "\<forall>e cache' evs. load_models env None = (Inl e, cache', evs) \<longrightarrow> cache' = None"
    by (auto simp add: load_models_def split: prod.splits sum.splits)
  have 5: "\<forall>model label_encoder cache' evs.
      load_models env None = (Inr (model, label_encoder), cache', evs) \<longrightarrow>
      (\<exists>f f'. open_rb env model_path = Inr f \<and> pickle_load env f = Inr model
            \<and> open_rb env encoder_path = Inr f' \<and> pickle_load env f' = Inr label_encoder)"
    by (auto simp add: load_models_defs Let_def split: prod.splits sum.splits if_splits)
  from 1 2 3 4 5 show ?thesis by blast
qed

theorem load_models_missing_model_witness:
  "path_exists no_model_env ''assets'' \<and> \<not> path_exists no_model_env model_path
   \<and> load_models no_model_env None = (Inl StopException, None, [StError model_missing_message])"
proof -
  have p: "path_exists no_model_env ''assets'' \<and> \<not> path_exists no_model_env model_path"
    by (simp add: no_model_env_def model_path_def encoder_path_def)
  with load_models_missing_model [of no_model_env]
  have "load_models no_model_env None = (Inl StopException, None, [StError model_missing_message])"
    by blast
  with p show ?thesis by simp
qed

section \<open>The caller\<close>

text \<open>
  C10. Every call of \<^verbatim>\<open>predict_shoe_size\<close> made from \<^verbatim>\<open>main\<close> comes after the guards of the
  button handler: it is made with the age and the height of the number inputs, the age is
  in [1,100], the height in [50,250] and the gender is not empty. Along this path every
  call of the encoder carries one non-empty gender and every call of the model a row that
  starts with this age and this height, both in range.
\<close>

theorem main_guards_predict_shoe_size:
  fixes env :: "('s, 'v) os_env"
  assumes "main env round_builtin w cache s = (r, cache', s', evs)"
  shows "(\<forall>a h g. CallPredictShoeSize a h g \<in> set evs \<longrightarrow>
            a = number_input_age w \<and> h = number_input_height w
          \<and> 1 \<le> a \<and> a \<le> 100 \<and> 50 \<le> h \<and> h \<le> 250 \<and> g \<noteq> [])
       \<and> (\<forall>gs. CallTransform gs \<in> set evs \<longrightarrow>
            1 \<le> number_input_age w \<and> number_input_age w \<le> 100
          \<and> 50 \<le> number_input_height w \<and> number_input_height w \<le> 250
          \<and> (\<exists>g. gs = [g] \<and> g \<noteq> []))
       \<and> (\<forall>x. CallPredict x \<in> set evs \<longrightarrow>
            1 \<le> number_input_age w \<and> number_input_age w \<le> 100
          \<and> 50 \<le> number_input_height w \<and> number_input_height w \<le> 250
          \<and> (\<exists>code. x = [[number_input_age w, number_input_height w, code]]))"
proof -
  have key: "1 \<le> number_input_age w \<and> number_input_age w \<le> 100
       \<and> 50 \<le> number_input_height w \<and> number_input_height w \<le> 250
       \<and> (\<exists>g. g \<noteq> [] \<and>
            (ev = CallPredictShoeSize (number_input_age w) (number_input_height w) g
             \<or> ev = CallTransform [g]
             \<or> (\<exists>code. ev = CallPredict [[number_input_age w, number_input_height w, code]])))"
    if ev: "ev \<in> set evs" "calls_collaborator ev" for ev
  proof -
    obtain r0 c0 evs0 where l: "load_models env cache = (r0, c0, evs0)"
      by (cases "load_models env cache")
    from load_models_no_calls [OF l] ev(2) have n0: "ev \<notin> set evs0" by blast
    from assms l ev n0 obtain model label_encoder gender r1 s1 evs1 where
      mp: "main_predict round_builtin (number_input_age w) (number_input_height w) gender
             model label_encoder s = (r1, s1, evs1)"
      and "ev \<in> set evs1"
      by (cases "main_predict round_builtin (number_input_age w) (number_input_height w)
                   (selectbox_gender w) (fst (projr r0)) (snd (projr r0)) s";
          cases "main_predict round_builtin (number_input_age w) (number_input_height w)
                   (Some ''Unknown'') (fst (projr r0)) (snd (projr r0)) s")
         (auto simp add: main_def Let_def split: sum.splits prod.splits if_splits)
    from main_predict_events [OF this ev(2)] show ?thesis by blast
  qed
  show ?thesis
  proof (intro conjI allI impI)
    fix a h g assume "CallPredictShoeSize a h g \<in> set evs"
    from key [OF this] show "a = number_input_age w" "h = number_input_height w"
      "1 \<le> a" "a \<le> 100" "50 \<le> h" "h \<le> 250" "g \<noteq> []" by auto
  next
    fix gs assume "CallTransform gs \<in> set evs"
    from key [OF this] show "1 \<le> number_input_age w" "number_input_age w \<le> 100"
      "50 \<le> number_input_height w" "number_input_height w \<le> 250"
      "\<exists>g. gs = [g] \<and> g \<noteq> []" by auto
  next
    fix x assume "CallPredict x \<in> set evs"
    from key [OF this] show "1 \<le> number_input_age w" "number_input_age w \<le> 100"
      "50 \<le> number_input_height w" "number_input_height w \<le> 250"
      "\<exists>code. x = [[number_input_age w, number_input_height w, code]]" by auto
  qed
qed

theorem main_guards_predict_shoe_size_witness:
  "main example_env example_round example_widgets None 0
     = (Inr (), Some (example_model, example_encoder), Suc 0,
        [Open model_path, PickleLoad model_path, Open encoder_path, PickleLoad encoder_path,
         CallPredictShoeSize 18 170 ''Male'', CallTransform [''Male''],
         CallPredict [[18, 170, 1]], ShowPrediction (951 / 100) 18 170 ''Male''])
   \<and> number_input_age example_widgets = 18 \<and> number_input_height example_widgets = 170
   \<and> (1::int) \<le> 18 \<and> (18::int) \<le> 100 \<and> (50::int) \<le> 170 \<and> (170::int) \<le> 250
   \<and> ''Male'' \<noteq> []"
proof -
  have run: "main example_env example_round example_widgets None 0
     = (Inr (), Some (example_model, example_encoder), Suc 0,
        [Open model_path, PickleLoad model_path, Open encoder_path, PickleLoad encoder_path,
         CallPredictShoeSize 18 170 ''Male'', CallTransform [''Male''],
         CallPredict [[18, 170, 1]], ShowPrediction (951 / 100) 18 170 ''Male''])"
  proof -
    have c: "classes example_encoder = Inr example_labels" by (simp add: example_encoder_def)
    show ?thesis
      by (simp add: main_def main_predict_def example_load example_run example_widgets_def c)
  qed
  from main_guards_predict_shoe_size [OF run, THEN conjunct1, rule_format, of 18 170 "''Male''"]
  have "(18::int) = number_input_age example_widgets
      \<and> (170::int) = number_input_height example_widgets
      \<and> (1::int) \<le> 18 \<and> (18::int) \<le> 100 \<and> (50::int) \<le> 170 \<and> (170::int) \<le> 250
      \<and> ''Male'' \<noteq> []"
    by simp
  with run show ?thesis by simp
qed

end
